theory Spec2Isabelle
  imports Main "HOL-Library.Sublist"
begin

section \<open>JavaScript string primitives\<close>

text \<open>
  A JavaScript string is modelled as a \<^typ>\<open>string\<close> whose characters are the code units
  U+0000 .. U+00FF. On that range the definitions below compute what the built-ins
  \<^verbatim>\<open>trim\<close>, \<^verbatim>\<open>toLowerCase\<close>, \<^verbatim>\<open>includes\<close>, \<^verbatim>\<open>split\<close> and \<^verbatim>\<open>join\<close> compute.
  An optional field (\<^verbatim>\<open>undefined\<close> or \<^verbatim>\<open>null\<close>) is an \<^typ>\<open>'a option\<close>.
\<close>

definition isWhiteSpace :: "char \<Rightarrow> bool" where
  \<comment> \<open>White space and line terminators stripped by \<^verbatim>\<open>String.prototype.trim\<close>.\<close>
  "isWhiteSpace c = (of_char c \<in> {9, 10, 11, 12, 13, 32, 160 :: nat})"

definition trim :: "string \<Rightarrow> string" where
  "trim s = rev (dropWhile isWhiteSpace (rev (dropWhile isWhiteSpace s)))"

definition lowerChar :: "char \<Rightarrow> char" where
  "lowerChar c =
     (let n = of_char c :: nat
      in if (65 \<le> n \<and> n \<le> 90) \<or> (192 \<le> n \<and> n \<le> 222 \<and> n \<noteq> 215)
         then char_of (n + 32) else c)"

definition toLowerCase :: "string \<Rightarrow> string" where
  "toLowerCase s = map lowerChar s"

definition str_includes :: "string \<Rightarrow> string \<Rightarrow> bool" where
  \<comment> \<open>\<^verbatim>\<open>s.includes(k)\<close>: \<open>k\<close> occurs in \<open>s\<close> as a contiguous run.\<close>
  "str_includes s k = sublist k s"

definition truthy :: "string option \<Rightarrow> bool" where
  \<comment> \<open>Truthiness of an optional string: absent and the empty string are falsy.\<close>
  "truthy v = (case v of None \<Rightarrow> False | Some s \<Rightarrow> s \<noteq> [])"

definition or_else :: "string option \<Rightarrow> string option \<Rightarrow> string option" where
  \<comment> \<open>\<^verbatim>\<open>a || b\<close> on optional strings.\<close>
  "or_else a b = (if truthy a then a else b)"

definition nl :: char where
  "nl = CHR 0x0A"

fun split_on :: "char \<Rightarrow> string \<Rightarrow> string list" where
  "split_on d [] = [[]]"
| "split_on d (c # cs) =
     (if c = d then [] # split_on d cs
      else (case split_on d cs of [] \<Rightarrow> [[c]] | l # ls \<Rightarrow> (c # l) # ls))"

fun join :: "string \<Rightarrow> string list \<Rightarrow> string" where
  "join sep [] = []"
| "join sep [x] = x"
| "join sep (x # y # ys) = x @ sep @ join sep (y # ys)"

section \<open>api.ts: message blocks\<close>

record sub_block =
  sub_value :: "string option"

record block =
  b_type :: string
  b_value :: "string option"
  b_language :: "string option"
  b_blocks :: "sub_block list option"

definition TextBlock :: "string \<Rightarrow> block" where
  "TextBlock v = \<lparr>b_type = ''text'', b_value = Some v, b_language = None, b_blocks = None\<rparr>"

definition CodeBlock :: "string \<Rightarrow> string option \<Rightarrow> block" where
  "CodeBlock v lang = \<lparr>b_type = ''code'', b_value = Some v, b_language = lang, b_blocks = None\<rparr>"

subsection \<open>Stripping simple tags: \<^verbatim>\<open>replace(/<[^>]+>/g, "")\<close>\<close>

function stripTags :: "string \<Rightarrow> string" where
  "stripTags [] = []"
| "stripTags (c # cs) =
     (if c = CHR ''<''
         \<and> takeWhile (\<lambda>x. x \<noteq> CHR ''>'') cs \<noteq> []
         \<and> dropWhile (\<lambda>x. x \<noteq> CHR ''>'') cs \<noteq> []
      then stripTags (tl (dropWhile (\<lambda>x. x \<noteq> CHR ''>'') cs))
      else c # stripTags cs)"
  by pat_completeness auto
termination
proof (relation "measure length")
  fix c :: char and cs :: string
  have "length (tl (dropWhile (\<lambda>x. x \<noteq> CHR ''>'') cs)) \<le> length cs"
    using length_dropWhile_le [of "\<lambda>x. x \<noteq> CHR ''>''" cs] by simp
  then show "(tl (dropWhile (\<lambda>x. x \<noteq> CHR ''>'') cs), c # cs) \<in> measure length"
    by simp
qed simp_all

subsection \<open>markdownToBlocks\<close>

definition isWordChar :: "char \<Rightarrow> bool" where
  \<comment> \<open>The class \<^verbatim>\<open>\w\<close>: ASCII letters, digits and the underscore.\<close>
  "isWordChar c =
     (let n = of_char c :: nat
      in (48 \<le> n \<and> n \<le> 57) \<or> (65 \<le> n \<and> n \<le> 90) \<or> n = 95 \<or> (97 \<le> n \<and> n \<le> 122))"

definition fenceMatch :: "string \<Rightarrow> string option" where
  \<comment> \<open>\<^verbatim>\<open>line.match(/^```(\w*)$/)\<close>: the captured language of a fence line.\<close>
  "fenceMatch line =
     (if take 3 line = replicate 3 (CHR 0x60) \<and> list_all isWordChar (drop 3 line)
      then Some (drop 3 line) else None)"

record md_state =
  blocks :: "block list"
  inCode :: bool
  codeLang :: string
  codeLines :: "string list"
  textLines :: "string list"

definition flushText :: "md_state \<Rightarrow> md_state" where
  "flushText s =
     (if textLines s \<noteq> []
      then (let v = trim (join [nl] (textLines s))
            in (if v \<noteq> [] then s\<lparr>blocks := blocks s @ [TextBlock v]\<rparr> else s)
                 \<lparr>textLines := []\<rparr>)
      else s)"

definition flushCode :: "md_state \<Rightarrow> md_state" where
  "flushCode s =
     (if codeLines s \<noteq> []
      then s\<lparr>blocks := blocks s @
                 [CodeBlock (join [nl] (codeLines s))
                    (if codeLang s \<noteq> [] then Some (codeLang s) else None)],
             codeLines := [], codeLang := []\<rparr>
      else s)"

definition md_step :: "md_state \<Rightarrow> string \<Rightarrow> md_state" where
  \<comment> \<open>One iteration of the loop over the lines.\<close>
  "md_step s line =
     (case fenceMatch line of
        Some lang \<Rightarrow>
          (if \<not> inCode s then (flushText s)\<lparr>inCode := True, codeLang := lang\<rparr>
           else (flushCode s)\<lparr>inCode := False\<rparr>)
      | None \<Rightarrow>
          (if inCode s then s\<lparr>codeLines := codeLines s @ [line]\<rparr>
           else s\<lparr>textLines := textLines s @ [line]\<rparr>))"

definition md_init :: md_state where
  "md_init = \<lparr>blocks = [], inCode = False, codeLang = [], codeLines = [], textLines = []\<rparr>"

definition markdownToBlocks :: "string \<Rightarrow> block list" where
  "markdownToBlocks t =
     (let s = foldl md_step md_init (split_on nl t);
          s1 = (if inCode s then flushCode s else s);
          s2 = flushText s1
      in if blocks s2 \<noteq> [] then blocks s2 else [TextBlock t])"

subsection \<open>blocksToText\<close>

definition blockParts :: "block \<Rightarrow> string list" where
  \<comment> \<open>What one iteration of the loop pushes onto \<^verbatim>\<open>parts\<close>.\<close>
  "blockParts b =
     (if b_type b = ''text'' \<and> truthy (b_value b) then [stripTags (the (b_value b))]
      else if b_type b = ''code'' \<and> truthy (b_value b)
        then [replicate 3 (CHR 0x60) @ [nl] @ the (b_value b) @ [nl] @ replicate 3 (CHR 0x60)]
      else if b_type b = ''bullets'' \<and> b_blocks b \<noteq> None
        then concat (map (\<lambda>sub. if truthy (sub_value sub)
                                  then [''- '' @ stripTags (the (sub_value sub))] else [])
                         (the (b_blocks b)))
      else [])"

definition blocksToText :: "block list \<Rightarrow> string" where
  "blocksToText bs = join [nl] (concat (map blockParts bs))"

definition fenceFree :: "string \<Rightarrow> bool" where
  \<comment> \<open>No line of the input is a fence line.\<close>
  "fenceFree t = list_all (\<lambda>l. fenceMatch l = None) (split_on nl t)"

section \<open>webhook.ts: events, targets and the host runtime\<close>

record user_chat_ref =
  uc_id :: "string option"
  uc_userId :: "string option"
  uc_name :: "string option"
  uc_state :: "string option"

record user_profile =
  pr_email :: "string option"
  pr_mobileNumber :: "string option"
  pr_name :: "string option"

record user_ref =
  u_id :: "string option"
  u_name :: "string option"
  u_profile :: "user_profile option"

record manager_ref =
  m_id :: "string option"
  m_name :: "string option"
  m_email :: "string option"

record refers =
  r_userChat :: "user_chat_ref option"
  r_user :: "user_ref option"
  r_manager :: "manager_ref option"

record entity =
  e_id :: "string option"
  e_chatId :: "string option"
  e_chatType :: "string option"
  e_personType :: "string option"
  e_personId :: "string option"
  e_plainText :: "string option"
  e_blocks :: "block list option"
  e_createdAt :: "nat option"
  e_updatedAt :: "nat option"

record webhook_event =
  ev_event :: "string option"
  ev_type :: "string option"
  ev_entity :: "entity option"
  ev_refers :: "refers option"

record credentials =
  accessKey :: string
  accessSecret :: string

text \<open>
  \<^verbatim>\<open>WebhookTarget\<close>. Its \<^verbatim>\<open>cfg\<close> and \<^verbatim>\<open>log\<close> fields are left out: the configuration that
  \<^verbatim>\<open>processWebhookEvent\<close> reads is the plugin API's, and log lines are not part of the
  modelled effects.
\<close>

record webhook_target =
  t_accountId :: string
  t_creds :: credentials
  t_botName :: "string option"
  t_groupAllowFrom :: "string list option"
  t_triggerKeywords :: "string list"

record account_config =
  ac_dmPolicy :: "string option"
  ac_allowFrom :: "string list option"

text \<open>The context object handed to \<^verbatim>\<open>finalizeInboundContext\<close>.\<close>

record inbound_ctx =
  ctx_Body :: string
  ctx_RawBody :: string
  ctx_CommandBody :: string
  ctx_BodyForAgent :: string
  ctx_BodyForCommands :: string
  ctx_From :: string
  ctx_To :: string
  ctx_SessionKey :: string
  ctx_AccountId :: string
  ctx_ChatType :: string
  ctx_ConversationLabel :: string
  ctx_SenderName :: string
  ctx_SenderId :: string
  ctx_SenderUsername :: string
  ctx_Provider :: string
  ctx_Surface :: string
  ctx_MessageSid :: string
  ctx_MessageSidFull :: string
  ctx_Timestamp :: nat
  ctx_OriginatingChannel :: string
  ctx_OriginatingTo :: string
  ctx_GroupSubject :: "string option"

record reply_payload =
  p_text :: "string option"
  p_mediaUrl :: "string option"

text \<open>
  The parts of the host's plugin API that \<^verbatim>\<open>processWebhookEvent\<close> uses. They are code of
  the host, not of this repository, so they are parameters of the model:
  \<^item> \<open>api_accounts\<close> is \<^verbatim>\<open>api.config.channels?.["channel-talk"]?.accounts\<close> (an absent level of
    the chain is the empty map);
  \<^item> \<open>rt_readAllowFromStore channel\<close>;
  \<^item> \<open>rt_upsertPairingRequest channel id name\<close> returns \<open>(code, created)\<close>;
  \<^item> \<open>rt_buildPairingReply channel idLine code\<close>;
  \<^item> \<open>rt_resolveAgentRoute channel accountId peerKind peerId\<close> returns the session key;
  \<^item> \<open>rt_finalizeInboundContext\<close>;
  \<^item> \<open>rt_agentReplies ctx\<close> is the sequence of payloads that
    \<^verbatim>\<open>dispatchReplyWithBufferedBlockDispatcher\<close> passes to the \<^verbatim>\<open>deliver\<close> callback.
\<close>

record plugin_api =
  api_accounts :: "string \<Rightarrow> account_config option"
  rt_readAllowFromStore :: "string \<Rightarrow> string list"
  rt_upsertPairingRequest :: "string \<Rightarrow> string \<Rightarrow> string \<Rightarrow> string \<times> bool"
  rt_buildPairingReply :: "string \<Rightarrow> string \<Rightarrow> string \<Rightarrow> string"
  rt_resolveAgentRoute :: "string \<Rightarrow> string \<Rightarrow> string \<Rightarrow> string \<Rightarrow> string"
  rt_finalizeInboundContext :: "inbound_ctx \<Rightarrow> inbound_ctx"
  rt_agentReplies :: "inbound_ctx \<Rightarrow> reply_payload list"

subsection \<open>Observable effects of a run\<close>

record send_call =
  sc_creds :: credentials
  sc_chatId :: string
  sc_text :: string
  sc_botName :: "string option"
  sc_chatType :: string

text \<open>
  The calls a run makes that act on the outside world, in order: the pairing upsert
  (channel, id, meta name), a call of \<^verbatim>\<open>sendMessage\<close>, and the hand-over of a context to
  the agent pipeline. The result of \<^verbatim>\<open>sendMessage\<close> is only logged, so it is not modelled.
\<close>

datatype effect =
    UpsertPairingRequest string string string
  | SendMessage send_call
  | DispatchReply inbound_ctx

datatype js_error = Error string

subsection \<open>The pairing reply: \<^verbatim>\<open>replyText.replace(/<code>/g, code)\<close>\<close>

definition codePlaceholder :: string where
  "codePlaceholder = ''<code>''"

fun expandReplacement :: "string \<Rightarrow> string \<Rightarrow> string \<Rightarrow> string \<Rightarrow> string" where
  \<comment> \<open>The substitution of a replacement string for a pattern without capture groups:
     \<open>$$\<close>, \<open>$&\<close>, \<open>$`\<close> and \<open>$'\<close> are expanded, every other character is literal.\<close>
  "expandReplacement matched preceding following [] = []"
| "expandReplacement matched preceding following [c] = [c]"
| "expandReplacement matched preceding following (c # d # r) =
     (if c = CHR ''$'' \<and> d = CHR ''$'' then CHR ''$'' # expandReplacement matched preceding following r
      else if c = CHR ''$'' \<and> d = CHR ''&'' then matched @ expandReplacement matched preceding following r
      else if c = CHR ''$'' \<and> d = CHR 0x60 then preceding @ expandReplacement matched preceding following r
      else if c = CHR ''$'' \<and> d = CHR 0x27 then following @ expandReplacement matched preceding following r
      else c # expandReplacement matched preceding following (d # r))"

function replaceFrom :: "string \<Rightarrow> string \<Rightarrow> string \<Rightarrow> string" where
  \<comment> \<open>\<open>replaceFrom code pre rest\<close>: \<open>pre\<close> is the part of the subject already scanned.\<close>
  "replaceFrom code pre [] = []"
| "replaceFrom code pre (c # cs) =
     (if prefix codePlaceholder (c # cs)
      then expandReplacement codePlaceholder pre (drop (length codePlaceholder) (c # cs)) code
             @ replaceFrom code (pre @ codePlaceholder) (drop (length codePlaceholder) (c # cs))
      else c # replaceFrom code (pre @ [c]) cs)"
  by pat_completeness auto
termination
  by (relation "measure (\<lambda>(code, pre, rest). length rest)") (auto simp: codePlaceholder_def)

definition replaceCode :: "string \<Rightarrow> string \<Rightarrow> string" where
  "replaceCode replyText code = replaceFrom code [] replyText"

subsection \<open>processWebhookEvent\<close>

definition isGroupChat_of :: "entity \<Rightarrow> bool" where
  \<comment> \<open>\<^verbatim>\<open>(message.chatType ?? "userChat") === "group"\<close>\<close>
  "isGroupChat_of message =
     ((case e_chatType message of None \<Rightarrow> ''userChat'' | Some ct \<Rightarrow> ct) = ''group'')"

definition refUserChat :: "webhook_event \<Rightarrow> user_chat_ref option" where
  \<comment> \<open>\<^verbatim>\<open>event.refers?.userChat\<close>\<close>
  "refUserChat event = (case ev_refers event of None \<Rightarrow> None | Some r \<Rightarrow> r_userChat r)"

definition refUser :: "webhook_event \<Rightarrow> user_ref option" where
  \<comment> \<open>\<^verbatim>\<open>event.refers?.user\<close>\<close>
  "refUser event = (case ev_refers event of None \<Rightarrow> None | Some r \<Rightarrow> r_user r)"

definition refManager :: "webhook_event \<Rightarrow> manager_ref option" where
  \<comment> \<open>\<^verbatim>\<open>event.refers?.manager\<close>\<close>
  "refManager event = (case ev_refers event of None \<Rightarrow> None | Some r \<Rightarrow> r_manager r)"

definition chatId_of :: "webhook_event \<Rightarrow> entity \<Rightarrow> string option" where
  \<comment> \<open>\<^verbatim>\<open>message.chatId ?? event.refers?.userChat?.id\<close>\<close>
  "chatId_of event message =
     (case e_chatId message of
        Some c \<Rightarrow> Some c
      | None \<Rightarrow> (case refUserChat event of None \<Rightarrow> None | Some uc \<Rightarrow> uc_id uc))"

definition rawBody_of :: "entity \<Rightarrow> string" where
  \<comment> \<open>\<^verbatim>\<open>message.plainText?.trim() ?? (message.blocks ? blocksToText(message.blocks) : "").trim()\<close>\<close>
  "rawBody_of message =
     (case e_plainText message of
        Some p \<Rightarrow> trim p
      | None \<Rightarrow> trim (case e_blocks message of Some bs \<Rightarrow> blocksToText bs | None \<Rightarrow> []))"

definition triggered :: "string list \<Rightarrow> string \<Rightarrow> bool" where
  \<comment> \<open>\<^verbatim>\<open>triggerKeywords.some((kw) => lower.includes(kw.toLowerCase()))\<close>\<close>
  "triggered keywords rawBody =
     list_ex (\<lambda>kw. str_includes (toLowerCase rawBody) (toLowerCase kw)) keywords"

record sender =
  senderId :: string
  senderName :: string
  senderEmail :: "string option"

text \<open>
  Lines 167 to 185 assign \<^verbatim>\<open>senderId\<close>, \<^verbatim>\<open>senderName\<close> and \<^verbatim>\<open>senderEmail\<close> in the two
  branches of one conditional; the model has one function for each variable.
\<close>

definition managerBranch :: "webhook_event \<Rightarrow> entity \<Rightarrow> bool" where
  \<comment> \<open>\<^verbatim>\<open>message.personType === "manager" && event.refers?.manager\<close>\<close>
  "managerBranch event message =
     (e_personType message = Some ''manager'' \<and> refManager event \<noteq> None)"

definition referencedId :: "webhook_event \<Rightarrow> entity \<Rightarrow> string option" where
  \<comment> \<open>\<^verbatim>\<open>mgr.id\<close> in the manager branch, \<^verbatim>\<open>event.refers?.user?.id\<close> in the other.\<close>
  "referencedId event message =
     (if managerBranch event message then m_id (the (refManager event))
      else (case refUser event of None \<Rightarrow> None | Some u \<Rightarrow> u_id u))"

definition senderId_of :: "webhook_event \<Rightarrow> entity \<Rightarrow> string" where
  \<comment> \<open>\<^verbatim>\<open>message.personId ?? mgr.id ?? "unknown"\<close> and
     \<^verbatim>\<open>message.personId ?? event.refers?.user?.id ?? "unknown"\<close>\<close>
  "senderId_of event message =
     (case e_personId message of
        Some i \<Rightarrow> i
      | None \<Rightarrow> (case referencedId event message of Some i \<Rightarrow> i | None \<Rightarrow> ''unknown''))"

definition customerName :: "webhook_event \<Rightarrow> string" where
  \<comment> \<open>\<^verbatim>\<open>refers?.user?.profile?.name ?? refers?.user?.name ?? refers?.userChat?.name ?? "User"\<close>\<close>
  "customerName event =
     (case (case refUser event of
              None \<Rightarrow> None
            | Some u \<Rightarrow> (case u_profile u of None \<Rightarrow> None | Some pr \<Rightarrow> pr_name pr)) of
        Some n \<Rightarrow> n
      | None \<Rightarrow>
          (case (case refUser event of None \<Rightarrow> None | Some u \<Rightarrow> u_name u) of
             Some n \<Rightarrow> n
           | None \<Rightarrow>
               (case (case refUserChat event of None \<Rightarrow> None | Some uc \<Rightarrow> uc_name uc) of
                  Some n \<Rightarrow> n
                | None \<Rightarrow> ''User'')))"

definition senderName_of :: "webhook_event \<Rightarrow> entity \<Rightarrow> string" where
  "senderName_of event message =
     (if managerBranch event message
      then (case m_name (the (refManager event)) of Some n \<Rightarrow> n | None \<Rightarrow> ''Manager'')
      else customerName event)"

definition senderEmail_of :: "webhook_event \<Rightarrow> entity \<Rightarrow> string option" where
  "senderEmail_of event message =
     (if managerBranch event message then m_email (the (refManager event))
      else (case refUser event of
              None \<Rightarrow> None
            | Some u \<Rightarrow> (case u_profile u of None \<Rightarrow> None | Some pr \<Rightarrow> pr_email pr)))"

definition resolveSender :: "webhook_event \<Rightarrow> entity \<Rightarrow> sender" where
  "resolveSender event message =
     \<lparr>senderId = senderId_of event message,
      senderName = senderName_of event message,
      senderEmail = senderEmail_of event message\<rparr>"

definition chatTypeArg :: "bool \<Rightarrow> string" where
  \<comment> \<open>\<^verbatim>\<open>isGroupChat ? "group" : "userChat"\<close>\<close>
  "chatTypeArg isGroupChat = (if isGroupChat then ''group'' else ''userChat'')"

definition sendTo :: "webhook_target \<Rightarrow> string \<Rightarrow> bool \<Rightarrow> string \<Rightarrow> effect" where
  \<comment> \<open>\<^verbatim>\<open>sendMessage(target.creds, chatId, text, {botName: target.botName, chatType})\<close>\<close>
  "sendTo target chatId isGroupChat txt =
     SendMessage \<lparr>sc_creds = t_creds target, sc_chatId = chatId, sc_text = txt,
                  sc_botName = t_botName target, sc_chatType = chatTypeArg isGroupChat\<rparr>"

definition deliver :: "webhook_target \<Rightarrow> string \<Rightarrow> bool \<Rightarrow> reply_payload \<Rightarrow> effect list" where
  \<comment> \<open>The \<^verbatim>\<open>deliver\<close> callback: a payload without text (after trimming) sends nothing.\<close>
  "deliver target chatId isGroupChat payload =
     (case p_text payload of
        None \<Rightarrow> []
      | Some t \<Rightarrow> if trim t = [] then [] else [sendTo target chatId isGroupChat (trim t)])"

definition inboundContext ::
  "plugin_api \<Rightarrow> nat \<Rightarrow> webhook_target \<Rightarrow> entity \<Rightarrow> string \<Rightarrow> bool \<Rightarrow> string \<Rightarrow> sender
     \<Rightarrow> inbound_ctx" where
  \<comment> \<open>The argument of \<^verbatim>\<open>finalizeInboundContext\<close>; \<open>now\<close> is \<^verbatim>\<open>Date.now()\<close>.\<close>
  "inboundContext api now target message chatId isGroupChat rawBody sndr =
     (let messageId = (case e_id message of Some i \<Rightarrow> i | None \<Rightarrow> [])
      in \<lparr>ctx_Body = rawBody, ctx_RawBody = rawBody, ctx_CommandBody = rawBody,
          ctx_BodyForAgent = rawBody, ctx_BodyForCommands = rawBody,
          ctx_From = ''channel-talk:'' @ senderId sndr,
          ctx_To = ''channel-talk:'' @ chatId,
          ctx_SessionKey =
            rt_resolveAgentRoute api ''channel-talk'' (t_accountId target)
              (if isGroupChat then ''group'' else ''dm'') chatId,
          ctx_AccountId = t_accountId target,
          ctx_ChatType = (if isGroupChat then ''channel'' else ''direct''),
          ctx_ConversationLabel = senderName sndr,
          ctx_SenderName = senderName sndr,
          ctx_SenderId = senderId sndr,
          ctx_SenderUsername =
            (case senderEmail sndr of Some e \<Rightarrow> e | None \<Rightarrow> senderId sndr),
          ctx_Provider = ''channel-talk'',
          ctx_Surface = ''channel-talk'',
          ctx_MessageSid = messageId,
          ctx_MessageSidFull = messageId,
          ctx_Timestamp = (case e_createdAt message of Some ts \<Rightarrow> ts | None \<Rightarrow> now),
          ctx_OriginatingChannel = ''channel-talk'',
          ctx_OriginatingTo = ''channel-talk:'' @ chatId,
          ctx_GroupSubject = (if isGroupChat then Some (''team-chat:'' @ chatId) else None)\<rparr>)"

definition dispatch ::
  "plugin_api \<Rightarrow> nat \<Rightarrow> webhook_target \<Rightarrow> entity \<Rightarrow> string \<Rightarrow> bool \<Rightarrow> string \<Rightarrow> sender
     \<Rightarrow> effect list" where
  \<comment> \<open>Lines 247 to 308: the context is handed to the agent pipeline, whose replies go
     through \<open>deliver\<close>.\<close>
  "dispatch api now target message chatId isGroupChat rawBody sndr =
     (let ctxPayload = rt_finalizeInboundContext api
            (inboundContext api now target message chatId isGroupChat rawBody sndr)
      in DispatchReply ctxPayload
           # concat (map (deliver target chatId isGroupChat) (rt_agentReplies api ctxPayload)))"

definition pairingTemplate :: "plugin_api \<Rightarrow> entity \<Rightarrow> string \<Rightarrow> string \<Rightarrow> string" where
  \<comment> \<open>Lines 220 to 227: the reply built by the host's helper.\<close>
  "pairingTemplate api message sid code =
     rt_buildPairingReply api ''channel-talk''
       (''Channel Talk ''
          @ (if e_personType message = Some ''manager'' then ''manager'' else ''user'')
          @ '' ID: '' @ sid)
       code"

definition pairingReply :: "plugin_api \<Rightarrow> entity \<Rightarrow> string \<Rightarrow> string \<Rightarrow> string" where
  \<comment> \<open>Line 230: the placeholder is replaced by the code.\<close>
  "pairingReply api message sid code = replaceCode (pairingTemplate api message sid code) code"

definition dmPolicy_of :: "plugin_api \<Rightarrow> webhook_target \<Rightarrow> string" where
  \<comment> \<open>Lines 194 and 195: \<^verbatim>\<open>account.dmPolicy ?? "pairing"\<close>, where \<^verbatim>\<open>account\<close> is the account's
     configuration or \<^verbatim>\<open>{}\<close>.\<close>
  "dmPolicy_of api target =
     (case api_accounts api (t_accountId target) of
        None \<Rightarrow> ''pairing''
      | Some account \<Rightarrow> (case ac_dmPolicy account of None \<Rightarrow> ''pairing'' | Some p \<Rightarrow> p))"

definition configAllowFrom_of :: "plugin_api \<Rightarrow> webhook_target \<Rightarrow> string list" where
  \<comment> \<open>Line 196: \<^verbatim>\<open>account.allowFrom ?? []\<close>\<close>
  "configAllowFrom_of api target =
     (case api_accounts api (t_accountId target) of
        None \<Rightarrow> []
      | Some account \<Rightarrow> (case ac_allowFrom account of None \<Rightarrow> [] | Some l \<Rightarrow> l))"

definition combinedAllowFrom_of :: "plugin_api \<Rightarrow> webhook_target \<Rightarrow> string list" where
  \<comment> \<open>Lines 202 and 203: \<^verbatim>\<open>[...configAllowFrom, ...storeAllowFrom]\<close>\<close>
  "combinedAllowFrom_of api target =
     configAllowFrom_of api target @ rt_readAllowFromStore api ''channel-talk''"

definition isAllowed :: "plugin_api \<Rightarrow> webhook_target \<Rightarrow> string \<Rightarrow> bool" where
  \<comment> \<open>Line 204\<close>
  "isAllowed api target sid =
     (sid \<in> set (combinedAllowFrom_of api target) \<or> ''*'' \<in> set (combinedAllowFrom_of api target))"

definition requestPairing ::
  "plugin_api \<Rightarrow> webhook_target \<Rightarrow> entity \<Rightarrow> string \<Rightarrow> bool \<Rightarrow> sender \<Rightarrow> effect list" where
  \<comment> \<open>Lines 209 to 243: the upsert, and the pairing message when the request is new.\<close>
  "requestPairing api target message chatId isGroupChat sndr =
     (let (code, created) =
            rt_upsertPairingRequest api ''channel-talk'' (senderId sndr) (senderName sndr)
      in UpsertPairingRequest ''channel-talk'' (senderId sndr) (senderName sndr)
           # (if created
              then [sendTo target chatId isGroupChat
                      (pairingReply api message (senderId sndr) code)]
              else []))"

definition gate ::
  "plugin_api \<Rightarrow> nat \<Rightarrow> webhook_target \<Rightarrow> entity \<Rightarrow> string \<Rightarrow> bool \<Rightarrow> string \<Rightarrow> sender
     \<Rightarrow> effect list" where
  \<comment> \<open>Lines 193 to 309: the pairing check, then the dispatch.\<close>
  "gate api now target message chatId isGroupChat rawBody sndr =
     (if dmPolicy_of api target = ''pairing''
      then (if \<not> isAllowed api target (senderId sndr)
            then requestPairing api target message chatId isGroupChat sndr
            else dispatch api now target message chatId isGroupChat rawBody sndr)
      else dispatch api now target message chatId isGroupChat rawBody sndr)"

text \<open>
  \<open>processWebhookEvent pluginApi now event target\<close>: \<open>pluginApi\<close> is the module variable
  read by \<^verbatim>\<open>getChannelTalkApi\<close> (which throws while it is unset) and \<open>now\<close> is
  \<^verbatim>\<open>Date.now()\<close>. The result is \<open>Inl\<close> of the error thrown, or \<open>Inr\<close> of the effects of a
  run that returned; every bare \<^verbatim>\<open>return\<close> of the source is \<open>Inr []\<close>.
\<close>

definition processWebhookEvent ::
  "plugin_api option \<Rightarrow> nat \<Rightarrow> webhook_event \<Rightarrow> webhook_target \<Rightarrow> js_error + effect list" where
  "processWebhookEvent pluginApi now event target =
     (if ev_type event \<noteq> Some ''Message'' then Inr []
      else case ev_entity event of
        None \<Rightarrow> Inr []
      | Some message \<Rightarrow>
          if e_personType message = Some ''bot'' then Inr []
          else if \<not> truthy (chatId_of event message) then Inr []
          else if rawBody_of message = [] then Inr []
          else if isGroupChat_of message \<and> t_triggerKeywords target \<noteq> []
                  \<and> \<not> triggered (t_triggerKeywords target) (rawBody_of message) then Inr []
          else (case pluginApi of
                  None \<Rightarrow> Inl (Error ''Channel Talk plugin not initialized'')
                | Some api \<Rightarrow>
                    Inr (gate api now target message (the (chatId_of event message))
                           (isGroupChat_of message) (rawBody_of message)
                           (resolveSender event message))))"

definition shouldProcess :: "webhook_event \<Rightarrow> webhook_target \<Rightarrow> bool" where
  \<comment> \<open>The event gets past every early \<^verbatim>\<open>return\<close> of lines 139 to 165.\<close>
  "shouldProcess event target =
     (ev_type event = Some ''Message'' \<and>
      (case ev_entity event of
         None \<Rightarrow> False
       | Some message \<Rightarrow>
           e_personType message \<noteq> Some ''bot'' \<and>
           truthy (chatId_of event message) \<and>
           rawBody_of message \<noteq> [] \<and>
           (if isGroupChat_of message \<and> t_triggerKeywords target \<noteq> []
            then triggered (t_triggerKeywords target) (rawBody_of message) else True)))"

section \<open>function.ts: the command endpoint\<close>

text \<open>The function handler of the repository (the file \<^verbatim>\<open>src/unnamed/part_002\<close>).\<close>

record chat_param =
  cp_id :: "string option"
  cp_type :: "string option"

record input_param =
  ip_message :: "string option"

text \<open>
  \<^verbatim>\<open>params\<close>: the declared flat fields, and the nested \<^verbatim>\<open>chat\<close> and \<^verbatim>\<open>input\<close> objects that
  the code reads through \<^verbatim>\<open>(params as any)\<close>.
\<close>

record function_params =
  fp_chat :: "chat_param option"
  fp_input :: "input_param option"
  fp_chatId :: "string option"
  fp_chatType :: "string option"
  fp_value :: "string option"
  fp_language :: "string option"

record caller =
  c_type :: "string option"
  c_id :: "string option"

record function_context =
  fc_channelId :: "string option"
  fc_caller :: "caller option"

record function_request =
  fr_method :: "string option"
  fr_params :: "function_params option"
  fr_context :: "function_context option"

record function_target =
  ft_accountId :: string
  ft_creds :: credentials
  ft_botName :: "string option"

text \<open>
  \<^verbatim>\<open>ChannelTalkFunctionResponse\<close>: \<open>ProcessingAck\<close> is the result of type \<^verbatim>\<open>"text"\<close> whose
  value is the fixed acknowledgement literal, \<open>ResultError e\<close> is \<^verbatim>\<open>{ result: { error: e } }\<close>.
\<close>

datatype function_response = ProcessingAck | ResultError string

definition or_default :: "string option \<Rightarrow> string \<Rightarrow> string" where
  \<comment> \<open>\<^verbatim>\<open>a || d\<close> with a string default.\<close>
  "or_default a d = (case a of None \<Rightarrow> d | Some s \<Rightarrow> if s = [] then d else s)"

definition digitChar :: "nat \<Rightarrow> char" where
  "digitChar d = char_of (48 + d)"

fun showNat :: "nat \<Rightarrow> string" where
  \<comment> \<open>The decimal digits of a non-negative integer, as a template literal prints it.\<close>
  "showNat n = (if n < 10 then [digitChar n] else showNat (n div 10) @ [digitChar (n mod 10)])"

declare showNat.simps [simp del]

definition nestedChatId :: "function_request \<Rightarrow> string option" where
  \<comment> \<open>\<^verbatim>\<open>(params as any).chat?.id\<close>\<close>
  "nestedChatId request =
     (case fr_params request of
        None \<Rightarrow> None
      | Some p \<Rightarrow> (case fp_chat p of None \<Rightarrow> None | Some c \<Rightarrow> cp_id c))"

definition flatChatId :: "function_request \<Rightarrow> string option" where
  \<comment> \<open>\<^verbatim>\<open>params.chatId\<close>\<close>
  "flatChatId request = (case fr_params request of None \<Rightarrow> None | Some p \<Rightarrow> fp_chatId p)"

definition nestedChatType :: "function_request \<Rightarrow> string option" where
  \<comment> \<open>\<^verbatim>\<open>(params as any).chat?.type\<close>\<close>
  "nestedChatType request =
     (case fr_params request of
        None \<Rightarrow> None
      | Some p \<Rightarrow> (case fp_chat p of None \<Rightarrow> None | Some c \<Rightarrow> cp_type c))"

definition flatChatType :: "function_request \<Rightarrow> string option" where
  \<comment> \<open>\<^verbatim>\<open>params.chatType\<close>\<close>
  "flatChatType request = (case fr_params request of None \<Rightarrow> None | Some p \<Rightarrow> fp_chatType p)"

definition nestedMessage :: "function_request \<Rightarrow> string option" where
  \<comment> \<open>\<^verbatim>\<open>(params as any).input?.message\<close>\<close>
  "nestedMessage request =
     (case fr_params request of
        None \<Rightarrow> None
      | Some p \<Rightarrow> (case fp_input p of None \<Rightarrow> None | Some i \<Rightarrow> ip_message i))"

definition flatValue :: "function_request \<Rightarrow> string option" where
  \<comment> \<open>\<^verbatim>\<open>params.value\<close>\<close>
  "flatValue request = (case fr_params request of None \<Rightarrow> None | Some p \<Rightarrow> fp_value p)"

definition requestCaller :: "function_request \<Rightarrow> caller option" where
  \<comment> \<open>\<^verbatim>\<open>context.caller\<close>\<close>
  "requestCaller request = (case fr_context request of None \<Rightarrow> None | Some c \<Rightarrow> fc_caller c)"

definition chatId_in :: "function_request \<Rightarrow> string option" where
  \<comment> \<open>Line 152: \<^verbatim>\<open>(params as any).chat?.id || params.chatId\<close>\<close>
  "chatId_in request = or_else (nestedChatId request) (flatChatId request)"

definition chatType_in :: "function_request \<Rightarrow> string" where
  \<comment> \<open>Line 153: \<^verbatim>\<open>(params as any).chat?.type || params.chatType || "userChat"\<close>\<close>
  "chatType_in request =
     or_default (or_else (nestedChatType request) (flatChatType request)) ''userChat''"

definition userInput_in :: "function_request \<Rightarrow> string" where
  \<comment> \<open>Line 155: \<^verbatim>\<open>((params as any).input?.message || params.value || "").trim()\<close>\<close>
  "userInput_in request = trim (or_default (or_else (nestedMessage request) (flatValue request)) [])"

definition callerId_in :: "function_request \<Rightarrow> string" where
  \<comment> \<open>Line 166: \<^verbatim>\<open>context.caller?.id ?? "unknown"\<close>\<close>
  "callerId_in request =
     (case (case requestCaller request of None \<Rightarrow> None | Some c \<Rightarrow> c_id c) of
        None \<Rightarrow> ''unknown'' | Some i \<Rightarrow> i)"

definition callerType_in :: "function_request \<Rightarrow> string" where
  \<comment> \<open>Line 167: \<^verbatim>\<open>context.caller?.type ?? "user"\<close>\<close>
  "callerType_in request =
     (case (case requestCaller request of None \<Rightarrow> None | Some c \<Rightarrow> c_type c) of
        None \<Rightarrow> ''user'' | Some ty \<Rightarrow> ty)"

definition webhookEvent_of :: "nat \<Rightarrow> nat \<Rightarrow> function_request \<Rightarrow> webhook_event" where
  \<comment> \<open>Lines 170 to 192: the request in the webhook event format; \<open>t1\<close> and \<open>t2\<close> are the
     two readings of \<^verbatim>\<open>Date.now()\<close>.\<close>
  "webhookEvent_of t1 t2 request =
     \<lparr>ev_event = Some ''push'',
      ev_type = Some ''Message'',
      ev_entity = Some
        \<lparr>e_id = Some (''function-'' @ showNat t1),
         e_chatId = chatId_in request,
         e_chatType = Some (chatType_in request),
         e_personType = Some (callerType_in request),
         e_personId = Some (callerId_in request),
         e_plainText = Some (userInput_in request),
         e_blocks = None,
         e_createdAt = Some t2,
         e_updatedAt = None\<rparr>,
      ev_refers = Some
        \<lparr>r_userChat = None,
         r_user = (if callerType_in request = ''user''
                   then Some \<lparr>u_id = Some (callerId_in request), u_name = Some ''User'',
                              u_profile = None\<rparr>
                   else None),
         r_manager = (if callerType_in request = ''manager''
                      then Some \<lparr>m_id = Some (callerId_in request), m_name = Some ''Manager'',
                                 m_email = None\<rparr>
                      else None)\<rparr>\<rparr>"

definition webhookTarget_of :: "function_target \<Rightarrow> webhook_target" where
  \<comment> \<open>Lines 195 to 202: no keyword filtering for commands.\<close>
  "webhookTarget_of target =
     \<lparr>t_accountId = ft_accountId target,
      t_creds = ft_creds target,
      t_botName = ft_botName target,
      t_groupAllowFrom = None,
      t_triggerKeywords = []\<rparr>"

text \<open>
  \<open>processFunctionRequest t1 t2 request target\<close>: the response returned, and the event
  and target passed to \<^verbatim>\<open>processWebhookEvent\<close> when that call is reached.
\<close>

definition processFunctionRequest ::
  "nat \<Rightarrow> nat \<Rightarrow> function_request \<Rightarrow> function_target
     \<Rightarrow> function_response \<times> (webhook_event \<times> webhook_target) option" where
  "processFunctionRequest t1 t2 request target =
     (if \<not> truthy (chatId_in request) then (ResultError ''Missing chatId in params'', None)
      else if userInput_in request = [] then (ResultError ''Missing user input'', None)
      else (ProcessingAck, Some (webhookEvent_of t1 t2 request, webhookTarget_of target)))"

definition forwardedEvent ::
  "function_response \<times> (webhook_event \<times> webhook_target) option \<Rightarrow> webhook_event option" where
  \<comment> \<open>The event a call of \<open>processFunctionRequest\<close> passed on, if any.\<close>
  "forwardedEvent r = map_option fst (snd r)"

section \<open>The HTTP handlers\<close>

text \<open>
  A request as the handlers see it: the method, the path name of the parsed URL, the
  chunks of the body in arrival order, and whether the stream fails after them instead
  of ending.
\<close>

record http_request =
  req_method :: "string option"
  req_pathname :: string
  req_chunks :: "string list"
  req_streamError :: bool

datatype 'a read_result = ReadOk 'a | ReadFailed string




fun exceeds :: "nat \<Rightarrow> nat \<Rightarrow> string list \<Rightarrow> bool" where
  \<comment> \<open>Some chunk takes the running seen above the limit.\<close>
  "exceeds maxBytes seen [] = False"
| "exceeds maxBytes seen (c # cs) =
     (if seen + length c > maxBytes then True else exceeds maxBytes (seen + length c) cs)"

definition readJsonBody :: "(string \<Rightarrow> 'a option) \<Rightarrow> http_request \<Rightarrow> nat \<Rightarrow> 'a read_result" where
  \<comment> \<open>\<open>parse\<close> is \<^verbatim>\<open>JSON.parse\<close> followed by the cast to the expected shape; \<open>None\<close> when it
     throws.\<close>
  "readJsonBody parse req maxBytes =
     (if exceeds maxBytes 0 (req_chunks req) then ReadFailed ''payload_too_large''
      else if req_streamError req then ReadFailed ''read_error''
      else (case parse (concat (req_chunks req)) of
              None \<Rightarrow> ReadFailed ''invalid_json''
            | Some d \<Rightarrow> ReadOk d))"







section \<open>Reading a run\<close>

fun sends :: "effect list \<Rightarrow> send_call list" where
  \<comment> \<open>The calls of \<^verbatim>\<open>sendMessage\<close> of a run, in order.\<close>
  "sends [] = []"
| "sends (SendMessage sc # es) = sc # sends es"
| "sends (UpsertPairingRequest ch i n # es) = sends es"
| "sends (DispatchReply ctx # es) = sends es"

fun pipelineCalls :: "effect list \<Rightarrow> inbound_ctx list" where
  \<comment> \<open>The contexts handed to the agent pipeline.\<close>
  "pipelineCalls [] = []"
| "pipelineCalls (DispatchReply ctx # es) = ctx # pipelineCalls es"
| "pipelineCalls (SendMessage sc # es) = pipelineCalls es"
| "pipelineCalls (UpsertPairingRequest ch i n # es) = pipelineCalls es"

definition pipelineInvoked :: "js_error + effect list \<Rightarrow> bool" where
  "pipelineInvoked r = (case r of Inl e \<Rightarrow> False | Inr es \<Rightarrow> pipelineCalls es \<noteq> [])"

section \<open>Sample inputs\<close>

definition sampleApi :: "string option \<Rightarrow> string list \<Rightarrow> string list \<Rightarrow> bool \<Rightarrow> plugin_api" where
  \<comment> \<open>A host with one account \<open>default\<close>: its policy and configured allow list, the store's
     allow list, and whether an upsert creates a new request (the code is \<open>ABC123\<close>).\<close>
  "sampleApi policy allowFrom storeAllowFrom created =
     \<lparr>api_accounts = (\<lambda>a. if a = ''default''
                            then Some \<lparr>ac_dmPolicy = policy, ac_allowFrom = Some allowFrom\<rparr>
                            else None),
      rt_readAllowFromStore = (\<lambda>channel. storeAllowFrom),
      rt_upsertPairingRequest = (\<lambda>channel i n. (''ABC123'', created)),
      rt_buildPairingReply = (\<lambda>channel idLine code. idLine @ '' code: <code>''),
      rt_resolveAgentRoute = (\<lambda>channel accountId kind peer. ''session:'' @ kind @ '':'' @ peer),
      rt_finalizeInboundContext = (\<lambda>ctx. ctx),
      rt_agentReplies = (\<lambda>ctx. [\<lparr>p_text = Some '' hello '', p_mediaUrl = None\<rparr>])\<rparr>"

definition sampleMessage :: entity where
  "sampleMessage =
     \<lparr>e_id = Some ''m1'', e_chatId = Some ''C1'', e_chatType = Some ''userChat'',
      e_personType = Some ''user'', e_personId = Some ''U1'', e_plainText = Some ''hi AI'',
      e_blocks = None, e_createdAt = Some 5, e_updatedAt = None\<rparr>"

definition sampleEvent :: "entity \<Rightarrow> refers option \<Rightarrow> webhook_event" where
  "sampleEvent message refs =
     \<lparr>ev_event = Some ''push'', ev_type = Some ''Message'', ev_entity = Some message,
      ev_refers = refs\<rparr>"

definition sampleRefers :: refers where
  \<comment> \<open>An event's \<^verbatim>\<open>refers\<close> that names the user chat \<open>UC9\<close> only.\<close>
  "sampleRefers =
     \<lparr>r_userChat = Some \<lparr>uc_id = Some ''UC9'', uc_userId = None, uc_name = Some ''Kim'',
                          uc_state = None\<rparr>,
      r_user = None, r_manager = None\<rparr>"

definition sampleFunctionTarget :: function_target where
  "sampleFunctionTarget =
     \<lparr>ft_accountId = ''default'', ft_creds = \<lparr>accessKey = ''k'', accessSecret = ''s''\<rparr>,
      ft_botName = None\<rparr>"

definition sampleRequest ::
  "chat_param option \<Rightarrow> string option \<Rightarrow> input_param option \<Rightarrow> string option \<Rightarrow> string option
     \<Rightarrow> function_request" where
  \<comment> \<open>A command invocation: the nested chat, the flat chat id, the nested input, the flat
     value, and the caller's kind (the caller's id is \<open>P1\<close>).\<close>
  "sampleRequest chat flatId input flatVal callerKind =
     \<lparr>fr_method = Some ''ask'',
      fr_params = Some \<lparr>fp_chat = chat, fp_input = input, fp_chatId = flatId,
                        fp_chatType = None, fp_value = flatVal, fp_language = None\<rparr>,
      fr_context = Some \<lparr>fc_channelId = None,
                         fc_caller = Some \<lparr>c_type = callerKind, c_id = Some ''P1''\<rparr>\<rparr>\<rparr>"






definition sampleTarget :: "string list \<Rightarrow> webhook_target" where
  "sampleTarget keywords =
     \<lparr>t_accountId = ''default'', t_creds = \<lparr>accessKey = ''k'', accessSecret = ''s''\<rparr>,
      t_botName = None, t_groupAllowFrom = None, t_triggerKeywords = keywords\<rparr>"

section \<open>Properties of the string primitives\<close>

lemma split_on_not_Nil: "split_on d s \<noteq> []"
  by (induction s) (auto split: list.splits)

lemma join_split_on: "join [d] (split_on d s) = s"
proof (induction s)
  case Nil
  show ?case by simp
next
  case (Cons c cs)
  obtain l ls where sp: "split_on d cs = l # ls"
    using split_on_not_Nil [of d cs] by (cases "split_on d cs") auto
  show ?case
  proof (cases "c = d")
    case True
    with Cons sp show ?thesis by simp
  next
    case False
    with Cons sp show ?thesis by (cases ls) auto
  qed
qed

section \<open>The placeholder replacement\<close>





section \<open>Properties of processWebhookEvent\<close>

lemma gate_not_Nil: "gate api now target message chatId isGroupChat rawBody sndr \<noteq> []"
  by (simp add: gate_def dispatch_def requestPairing_def Let_def split: prod.splits)

lemma processWebhookEvent_dropped:
  "processWebhookEvent pluginApi now event target = Inr [] \<longleftrightarrow> \<not> shouldProcess event target"
  by (auto simp: processWebhookEvent_def shouldProcess_def gate_not_Nil split: option.splits)

lemma processWebhookEvent_accepted:
  "shouldProcess event target \<Longrightarrow> ev_entity event = Some message \<Longrightarrow>
   processWebhookEvent (Some api) now event target =
     Inr (gate api now target message (the (chatId_of event message)) (isGroupChat_of message)
            (rawBody_of message) (resolveSender event message))"
  by (auto simp: processWebhookEvent_def shouldProcess_def split: option.splits if_splits)

subsection \<open>The access check under each policy\<close>

lemma isAllowed_union:
  "isAllowed api target sid \<longleftrightarrow>
     sid \<in> set (configAllowFrom_of api target) \<union> set (rt_readAllowFromStore api ''channel-talk'')
     \<or> ''*'' \<in> set (configAllowFrom_of api target) \<union> set (rt_readAllowFromStore api ''channel-talk'')"
  by (simp add: isAllowed_def combinedAllowFrom_of_def)

lemma gate_other_policy:
  "dmPolicy_of api target \<noteq> ''pairing'' \<Longrightarrow>
     gate api now target message chatId isGroupChat rawBody sndr
       = dispatch api now target message chatId isGroupChat rawBody sndr"
  by (simp add: gate_def)

lemma gate_pairing_allowed:
  "dmPolicy_of api target = ''pairing'' \<Longrightarrow> isAllowed api target (senderId sndr) \<Longrightarrow>
     gate api now target message chatId isGroupChat rawBody sndr
       = dispatch api now target message chatId isGroupChat rawBody sndr"
  by (simp add: gate_def)

lemma pipelineCalls_dispatch:
  "pipelineCalls (dispatch api now target message chatId isGroupChat rawBody sndr) \<noteq> []"
  by (simp add: dispatch_def Let_def)

lemma other_policy_reaches_pipeline:
  assumes "shouldProcess event target" and "dmPolicy_of api target \<noteq> ''pairing''"
  shows "pipelineInvoked (processWebhookEvent (Some api) now event target)"
proof -
  from assms(1) obtain message where m: "ev_entity event = Some message"
    by (auto simp: shouldProcess_def split: option.splits)
  show ?thesis
    unfolding processWebhookEvent_accepted [OF assms(1) m]
    by (simp add: pipelineInvoked_def gate_other_policy [OF assms(2)] pipelineCalls_dispatch)
qed

subsection \<open>gate reads three fields of the message\<close>

lemma inboundContext_message_cong:
  "e_id m' = e_id m \<Longrightarrow> e_createdAt m' = e_createdAt m \<Longrightarrow>
   inboundContext api now target m' chatId isGroupChat rawBody sndr
     = inboundContext api now target m chatId isGroupChat rawBody sndr"
  by (simp add: inboundContext_def)

lemma dispatch_message_cong:
  "e_id m' = e_id m \<Longrightarrow> e_createdAt m' = e_createdAt m \<Longrightarrow>
   dispatch api now target m' chatId isGroupChat rawBody sndr
     = dispatch api now target m chatId isGroupChat rawBody sndr"
  by (simp add: dispatch_def inboundContext_message_cong [of m' m])

lemma pairingReply_message_cong:
  "e_personType m' = e_personType m \<Longrightarrow> pairingReply api m' = pairingReply api m"
  by (intro ext) (simp add: pairingReply_def pairingTemplate_def)

lemma requestPairing_message_cong:
  "e_personType m' = e_personType m \<Longrightarrow>
   requestPairing api target m' chatId isGroupChat sndr
     = requestPairing api target m chatId isGroupChat sndr"
  by (simp add: requestPairing_def pairingReply_message_cong [of m' m] split: prod.splits)

lemma gate_message_cong:
  "e_personType m' = e_personType m \<Longrightarrow> e_id m' = e_id m \<Longrightarrow> e_createdAt m' = e_createdAt m \<Longrightarrow>
   gate api now target m' chatId isGroupChat rawBody sndr
     = gate api now target m chatId isGroupChat rawBody sndr"
  by (simp add: gate_def dispatch_message_cong [of m' m] requestPairing_message_cong [of m' m])

subsection \<open>sends of a run go to the resolved chat\<close>

lemma sends_append: "sends (xs @ ys) = sends xs @ sends ys"
  by (induction xs rule: sends.induct) simp_all

lemma sends_deliver:
  "sc \<in> set (sends (deliver target chatId isGroupChat payload)) \<Longrightarrow> sc_chatId sc = chatId"
  by (auto simp: deliver_def sendTo_def split: option.splits if_splits)

lemma sends_deliver_all:
  "sc \<in> set (sends (concat (map (deliver target chatId isGroupChat) ps))) \<Longrightarrow> sc_chatId sc = chatId"
  by (induction ps) (auto simp: sends_append dest: sends_deliver)

lemma sends_gate:
  "sc \<in> set (sends (gate api now target message chatId isGroupChat rawBody sndr)) \<Longrightarrow>
     sc_chatId sc = chatId"
  by (auto simp: gate_def dispatch_def requestPairing_def sendTo_def Let_def
      split: if_splits prod.splits dest: sends_deliver_all)

lemma pipelineCalls_requestPairing:
  "pipelineCalls (requestPairing api target message chatId isGroupChat sndr) = []"
  by (simp add: requestPairing_def sendTo_def split: prod.splits)

subsection \<open>The target's group allow list is not read\<close>

lemma sendTo_groupAllowFrom:
  "sendTo (target\<lparr>t_groupAllowFrom := g\<rparr>) = sendTo target"
  by (intro ext) (simp add: sendTo_def)

lemma deliver_groupAllowFrom:
  "deliver (target\<lparr>t_groupAllowFrom := g\<rparr>) = deliver target"
  by (intro ext) (simp add: deliver_def sendTo_groupAllowFrom split: option.splits)

lemma dispatch_groupAllowFrom:
  "dispatch api now (target\<lparr>t_groupAllowFrom := g\<rparr>) message chatId isGroupChat rawBody sndr
     = dispatch api now target message chatId isGroupChat rawBody sndr"
  by (simp add: dispatch_def deliver_groupAllowFrom inboundContext_def)

lemma dmPolicy_of_groupAllowFrom:
  "dmPolicy_of api (target\<lparr>t_groupAllowFrom := g\<rparr>) = dmPolicy_of api target"
  by (simp add: dmPolicy_of_def)

lemma isAllowed_groupAllowFrom:
  "isAllowed api (target\<lparr>t_groupAllowFrom := g\<rparr>) = isAllowed api target"
  by (intro ext) (simp add: isAllowed_def combinedAllowFrom_of_def configAllowFrom_of_def)

lemma requestPairing_groupAllowFrom:
  "requestPairing api (target\<lparr>t_groupAllowFrom := g\<rparr>) = requestPairing api target"
  by (intro ext) (simp add: requestPairing_def sendTo_groupAllowFrom split: prod.splits)

lemma gate_groupAllowFrom:
  "gate api now (target\<lparr>t_groupAllowFrom := g\<rparr>) message chatId isGroupChat rawBody sndr
     = gate api now target message chatId isGroupChat rawBody sndr"
  by (simp add: gate_def dispatch_groupAllowFrom dmPolicy_of_groupAllowFrom
      isAllowed_groupAllowFrom requestPairing_groupAllowFrom)


section \<open>api.ts: fence-free text becomes one text block\<close>

lemma foldl_md_step_text:
  "list_all (\<lambda>l. fenceMatch l = None) ls \<Longrightarrow> \<not> inCode s \<Longrightarrow>
     foldl md_step s ls = s\<lparr>textLines := textLines s @ ls\<rparr>"
proof (induction ls arbitrary: s)
  case Nil
  show ?case by simp
next
  case (Cons l ls)
  from Cons.prems have step: "md_step s l = s\<lparr>textLines := textLines s @ [l]\<rparr>"
    by (simp add: md_step_def)
  from Cons.prems have "foldl md_step (md_step s l) ls
      = (md_step s l)\<lparr>textLines := textLines (md_step s l) @ ls\<rparr>"
    by (intro Cons.IH) (simp_all add: step)
  then show ?case by (simp add: step)
qed

lemma markdownToBlocks_fenceFree:
  assumes "fenceFree t"
  shows "markdownToBlocks t = [TextBlock (if trim t = [] then t else trim t)]"
proof -
  have fold: "foldl md_step md_init (split_on nl t) = md_init\<lparr>textLines := split_on nl t\<rparr>"
    using foldl_md_step_text [of "split_on nl t" md_init] assms
    by (simp add: fenceFree_def md_init_def)
  have "markdownToBlocks t =
      (let s2 = flushText (md_init\<lparr>textLines := split_on nl t\<rparr>)
       in if blocks s2 \<noteq> [] then blocks s2 else [TextBlock t])"
    unfolding markdownToBlocks_def fold by (simp add: md_init_def)
  then show ?thesis
    by (simp add: md_init_def flushText_def split_on_not_Nil join_split_on Let_def)
qed

lemma blockParts_TextBlock: "blockParts (TextBlock v) = (if v = [] then [] else [stripTags v])"
  by (simp add: blockParts_def TextBlock_def truthy_def)

text \<open>
  Claim C8, as the code has it. For an input none of whose lines is a fence line,
  \<open>markdownToBlocks\<close> returns exactly one text block. Its value is the input with leading
  and trailing white space trimmed (inner newlines are kept), or the input itself when
  it is empty or white space only. Converting the block back gives that value with its
  simple tags stripped.
\<close>

theorem markdown_roundtrip_fenceFree:
  assumes "fenceFree t"
  shows "markdownToBlocks t = [TextBlock (if trim t = [] then t else trim t)]
       \<and> blocksToText (markdownToBlocks t) = stripTags (if trim t = [] then t else trim t)"
  using markdownToBlocks_fenceFree [OF assms]
  by (simp add: blocksToText_def blockParts_TextBlock)

theorem markdown_roundtrip_fenceFree_witness:
  "fenceFree ('' a'' @ [nl] @ ''b <i>c</i> '')
   \<and> markdownToBlocks ('' a'' @ [nl] @ ''b <i>c</i> '') = [TextBlock (''a'' @ [nl] @ ''b <i>c</i>'')]
   \<and> blocksToText (markdownToBlocks ('' a'' @ [nl] @ ''b <i>c</i> '')) = ''a'' @ [nl] @ ''b c''"
proof -
  define x where "x = '' a'' @ [nl] @ ''b <i>c</i> ''"
  define y where "y = ''a'' @ [nl] @ ''b <i>c</i>''"
  define z where "z = ''a'' @ [nl] @ ''b c''"
  have f: "fenceFree x" unfolding x_def by code_simp
  have t: "trim x = y" unfolding x_def y_def by code_simp
  have s: "stripTags y = z" unfolding y_def z_def by code_simp
  have n: "y \<noteq> []" unfolding y_def by simp
  note r = markdown_roundtrip_fenceFree [OF f, unfolded t]
  have "fenceFree x \<and> markdownToBlocks x = [TextBlock y]
        \<and> blocksToText (markdownToBlocks x) = z"
    using r f n s by auto
  then show ?thesis unfolding x_def y_def z_def .
qed

text \<open>
  Claim C8 as stated fails: the fence-free input \<open>'' a''\<close> yields a text block whose value
  is \<open>''a''\<close>, not the original string, and converting back does not recover the leading
  blank.
\<close>

theorem markdown_roundtrip_counterexample:
  "fenceFree '' a'' \<and> markdownToBlocks '' a'' \<noteq> [TextBlock '' a'']
   \<and> blocksToText (markdownToBlocks '' a'') \<noteq> stripTags '' a''"
proof -
  have f: "fenceFree '' a''" by code_simp
  have m: "markdownToBlocks '' a'' = [TextBlock ''a'']" by code_simp
  have b: "blocksToText [TextBlock ''a''] = ''a''" by code_simp
  have s: "stripTags '' a'' = '' a''" by code_simp
  have "markdownToBlocks '' a'' \<noteq> [TextBlock '' a'']"
    unfolding m by (simp add: TextBlock_def)
  moreover have "blocksToText (markdownToBlocks '' a'') \<noteq> stripTags '' a''"
    unfolding m b s by simp
  ultimately show ?thesis using f by simp
qed

section \<open>The claims about processWebhookEvent\<close>

text \<open>
  Claim C10. The target's \<open>groupAllowFrom\<close> field never influences event processing: two
  runs of \<open>processWebhookEvent\<close> on targets that differ only in that field have the same
  outcome, that is the same drop decision, the same sends and the same pipeline call.
\<close>

theorem groupAllowFrom_ignored:
  "processWebhookEvent pluginApi now event (target\<lparr>t_groupAllowFrom := g\<rparr>)
     = processWebhookEvent pluginApi now event target"
  by (simp add: processWebhookEvent_def gate_groupAllowFrom split: option.splits)

theorem groupAllowFrom_ignored_witness:
  "processWebhookEvent (Some (sampleApi (Some ''open'') [] [] True)) 0
     (sampleEvent (sampleMessage\<lparr>e_chatType := Some ''group''\<rparr>) None)
     ((sampleTarget [''ai''])\<lparr>t_groupAllowFrom := Some [''G9'']\<rparr>)
   = processWebhookEvent (Some (sampleApi (Some ''open'') [] [] True)) 0
     (sampleEvent (sampleMessage\<lparr>e_chatType := Some ''group''\<rparr>) None)
     (sampleTarget [''ai''])
   \<and> pipelineInvoked (processWebhookEvent (Some (sampleApi (Some ''open'') [] [] True)) 0
     (sampleEvent (sampleMessage\<lparr>e_chatType := Some ''group''\<rparr>) None)
     ((sampleTarget [''ai''])\<lparr>t_groupAllowFrom := Some [''G9'']\<rparr>))"
proof -
  have "pipelineInvoked (processWebhookEvent (Some (sampleApi (Some ''open'') [] [] True)) 0
     (sampleEvent (sampleMessage\<lparr>e_chatType := Some ''group''\<rparr>) None)
     (sampleTarget [''ai'']))"
    by code_simp
  then show ?thesis
    using groupAllowFrom_ignored [where target = "sampleTarget [''ai'']" and g = "Some [''G9'']"]
    by simp
qed

text \<open>
  Claim C4. Keyword gating is group-only. Take a message event that is not bot-authored,
  whose chat id resolves and whose text is not empty after trimming. In a direct chat it
  is processed whatever the target's trigger keywords are; in a group chat it is
  processed iff the keyword list is empty or the lower-cased text includes some
  lower-cased keyword. Being processed is getting past every early return of
  \<open>processWebhookEvent\<close>.
\<close>

theorem keyword_gating_group_only:
  assumes "ev_type event = Some ''Message''" and "ev_entity event = Some message"
    and "e_personType message \<noteq> Some ''bot''" and "truthy (chatId_of event message)"
    and "rawBody_of message \<noteq> []"
  shows "(\<not> isGroupChat_of message \<longrightarrow> shouldProcess event target)
     \<and> (isGroupChat_of message \<longrightarrow>
          (shouldProcess event target \<longleftrightarrow>
             t_triggerKeywords target = [] \<or>
             (\<exists>kw \<in> set (t_triggerKeywords target).
                 str_includes (toLowerCase (rawBody_of message)) (toLowerCase kw))))
     \<and> (shouldProcess event target \<longleftrightarrow> processWebhookEvent pluginApi now event target \<noteq> Inr [])"
  using assms
  by (auto simp: shouldProcess_def processWebhookEvent_dropped triggered_def list_ex_iff)

theorem keyword_gating_group_only_witness:
  "shouldProcess (sampleEvent sampleMessage None) (sampleTarget [''zzz''])
   \<and> shouldProcess (sampleEvent (sampleMessage\<lparr>e_chatType := Some ''group''\<rparr>) None) (sampleTarget [''zzz'', ''Ai''])
   \<and> \<not> shouldProcess (sampleEvent (sampleMessage\<lparr>e_chatType := Some ''group''\<rparr>) None) (sampleTarget [''zzz''])
   \<and> processWebhookEvent None 0 (sampleEvent (sampleMessage\<lparr>e_chatType := Some ''group''\<rparr>) None) (sampleTarget [''zzz'']) = Inr []"
proof -
  define g where "g = sampleMessage\<lparr>e_chatType := Some ''group''\<rparr>"
  have d: "ev_type (sampleEvent sampleMessage None) = Some ''Message''"
      "ev_entity (sampleEvent sampleMessage None) = Some sampleMessage"
      "e_personType sampleMessage \<noteq> Some ''bot''"
      "truthy (chatId_of (sampleEvent sampleMessage None) sampleMessage)"
      "rawBody_of sampleMessage \<noteq> []"
      "\<not> isGroupChat_of sampleMessage"
    by code_simp+
  have h: "ev_type (sampleEvent g None) = Some ''Message''"
      "ev_entity (sampleEvent g None) = Some g"
      "e_personType g \<noteq> Some ''bot''"
      "truthy (chatId_of (sampleEvent g None) g)"
      "rawBody_of g \<noteq> []"
      "isGroupChat_of g"
    unfolding g_def by code_simp+
  have k1: "t_triggerKeywords (sampleTarget [''zzz'', ''Ai'']) = [''zzz'', ''Ai'']"
    and k2: "t_triggerKeywords (sampleTarget [''zzz'']) = [''zzz'']"
    by (simp_all add: sampleTarget_def)
  have i1: "str_includes (toLowerCase (rawBody_of g)) (toLowerCase ''Ai'')"
    and i2: "\<not> str_includes (toLowerCase (rawBody_of g)) (toLowerCase ''zzz'')"
    unfolding g_def by code_simp+
  have a: "shouldProcess (sampleEvent sampleMessage None) (sampleTarget [''zzz''])"
    using keyword_gating_group_only [OF d(1-5)] d(6) by blast
  have b: "shouldProcess (sampleEvent g None) (sampleTarget [''zzz'', ''Ai''])"
    using keyword_gating_group_only [OF h(1-5), of "sampleTarget [''zzz'', ''Ai'']"] h(6) i1
    by (simp add: k1)
  have c: "\<not> shouldProcess (sampleEvent g None) (sampleTarget [''zzz''])"
    using keyword_gating_group_only [OF h(1-5), of "sampleTarget [''zzz'']"] h(6) i2
    by (simp add: k2)
  have e: "processWebhookEvent None 0 (sampleEvent g None) (sampleTarget [''zzz'']) = Inr []"
    using keyword_gating_group_only [OF h(1-5), of "sampleTarget [''zzz'']" None 0] c by blast
  show ?thesis using a b c e unfolding g_def by simp
qed

text \<open>
  Claim C1, evaluated on the code. Only the policy \<open>pairing\<close> is gated (there the sender
  is allowed iff it, or the wildcard, is in the union of the configured and the stored
  allow list: \<open>isAllowed_union\<close>, \<open>gate_pairing_allowed\<close>, \<open>gate_pairing_pending\<close>). Under
  every other policy a processed event reaches the agent pipeline
  (\<open>other_policy_reaches_pipeline\<close>): so it does under the policy \<open>disabled\<close> (sender in
  the configured allow list or not) and under the policy \<open>allowlist\<close> (sender \<open>U1\<close> not in
  the configured allow list \<open>[U2]\<close>), where the claim has it denied.
\<close>

theorem policy_disabled_and_allowlist_reach_pipeline:
  "pipelineInvoked (processWebhookEvent (Some (sampleApi (Some ''disabled'') [''U1''] [] True)) 0
      (sampleEvent sampleMessage None) (sampleTarget []))
   \<and> pipelineInvoked (processWebhookEvent (Some (sampleApi (Some ''allowlist'') [''U2''] [] True)) 0
      (sampleEvent sampleMessage None) (sampleTarget []))"
  by code_simp

subsection \<open>Fields of the event that a run does not read\<close>

lemma refs_entity_update:
  "refUserChat (event\<lparr>ev_entity := x\<rparr>) = refUserChat event"
  "refUser (event\<lparr>ev_entity := x\<rparr>) = refUser event"
  "refManager (event\<lparr>ev_entity := x\<rparr>) = refManager event"
  by (simp_all add: refUserChat_def refUser_def refManager_def)

lemma chatId_of_entity_update:
  "chatId_of (event\<lparr>ev_entity := x\<rparr>) message = chatId_of event message"
  unfolding chatId_of_def refs_entity_update ..

lemma resolveSender_entity_update:
  "resolveSender (event\<lparr>ev_entity := x\<rparr>) message = resolveSender event message"
  unfolding resolveSender_def senderId_of_def senderName_of_def senderEmail_of_def
    referencedId_def managerBranch_def customerName_def refs_entity_update ..

lemma filters_personId:
  "chatId_of event (message\<lparr>e_personId := p\<rparr>) = chatId_of event message"
  "rawBody_of (message\<lparr>e_personId := p\<rparr>) = rawBody_of message"
  "isGroupChat_of (message\<lparr>e_personId := p\<rparr>) = isGroupChat_of message"
  by (simp_all add: chatId_of_def rawBody_of_def isGroupChat_of_def split: option.splits)

lemma managerBranch_personId:
  "managerBranch event (message\<lparr>e_personId := p\<rparr>) = managerBranch event message"
  by (simp add: managerBranch_def)

lemma resolveSender_personId:
  "resolveSender event (message\<lparr>e_personId := Some (senderId_of event message)\<rparr>)
     = resolveSender event message"
  by (simp add: resolveSender_def senderId_of_def senderName_of_def senderEmail_of_def
      managerBranch_personId)

lemma chatId_of_idem:
  "chatId_of event (message\<lparr>e_chatId := chatId_of event message\<rparr>) = chatId_of event message"
  by (simp add: chatId_of_def split: option.splits)

lemma filters_chatId:
  "rawBody_of (message\<lparr>e_chatId := p\<rparr>) = rawBody_of message"
  "isGroupChat_of (message\<lparr>e_chatId := p\<rparr>) = isGroupChat_of message"
  "resolveSender event (message\<lparr>e_chatId := p\<rparr>) = resolveSender event message"
  by (simp_all add: rawBody_of_def isGroupChat_of_def resolveSender_def senderId_of_def
      senderName_of_def senderEmail_of_def referencedId_def managerBranch_def split: option.splits)


text \<open>
  Claim C9. Sender resolution never fails on a missing author id: when the message has
  no \<open>personId\<close> and the referenced record of its branch (the manager in the manager
  branch, the user otherwise) has no id, the sender id is the literal \<open>unknown\<close>. The run
  then goes on exactly as for a message whose \<open>personId\<close> is \<open>unknown\<close>, so this sender
  is gated like any other; and the event is dropped only by the filter.
\<close>

theorem unknown_sender_is_gated:
  assumes "ev_entity event = Some message" and "e_personId message = None"
    and "referencedId event message = None"
  shows "senderId (resolveSender event message) = ''unknown''
     \<and> processWebhookEvent pluginApi now event target
         = processWebhookEvent pluginApi now
             (event\<lparr>ev_entity := Some (message\<lparr>e_personId := Some ''unknown''\<rparr>)\<rparr>) target
     \<and> (shouldProcess event target \<longleftrightarrow> processWebhookEvent pluginApi now event target \<noteq> Inr [])"
proof -
  have u: "senderId_of event message = ''unknown''"
    using assms(2,3) by (simp add: senderId_of_def)
  have r: "resolveSender event (message\<lparr>e_personId := Some ''unknown''\<rparr>) = resolveSender event message"
    using resolveSender_personId [of event message] by (simp add: u)
  have g: "gate api now target (message\<lparr>e_personId := Some ''unknown''\<rparr>) c i b s
         = gate api now target message c i b s" for api c i b s
    by (rule gate_message_cong) simp_all
  have "processWebhookEvent pluginApi now
             (event\<lparr>ev_entity := Some (message\<lparr>e_personId := Some ''unknown''\<rparr>)\<rparr>) target
        = processWebhookEvent pluginApi now event target"
    using assms(1)
    by (simp add: processWebhookEvent_def filters_personId chatId_of_entity_update
        resolveSender_entity_update r g split: option.splits)
  with u show ?thesis by (simp add: processWebhookEvent_dropped resolveSender_def)
qed

theorem unknown_sender_is_gated_witness:
  "senderId (resolveSender (sampleEvent (sampleMessage\<lparr>e_personId := None\<rparr>) None)
       (sampleMessage\<lparr>e_personId := None\<rparr>)) = ''unknown''
   \<and> processWebhookEvent (Some (sampleApi None [] [] False)) 0
       (sampleEvent (sampleMessage\<lparr>e_personId := None\<rparr>) None) (sampleTarget [])
     = Inr [UpsertPairingRequest ''channel-talk'' ''unknown'' ''User'']"
proof -
  define m where "m = sampleMessage\<lparr>e_personId := None\<rparr>"
  define ev where "ev = sampleEvent m None"
  have a: "ev_entity ev = Some m" unfolding ev_def by (simp add: sampleEvent_def)
  have b: "e_personId m = None" unfolding m_def by simp
  have c: "referencedId ev m = None" unfolding ev_def m_def by code_simp
  have e: "processWebhookEvent (Some (sampleApi None [] [] False)) 0
        (ev\<lparr>ev_entity := Some (m\<lparr>e_personId := Some ''unknown''\<rparr>)\<rparr>) (sampleTarget [])
      = Inr [UpsertPairingRequest ''channel-talk'' ''unknown'' ''User'']"
    unfolding ev_def m_def by code_simp
  note t = unknown_sender_is_gated [OF a b c, of "Some (sampleApi None [] [] False)" 0 "sampleTarget []"]
  have "senderId (resolveSender ev m) = ''unknown''
     \<and> processWebhookEvent (Some (sampleApi None [] [] False)) 0 ev (sampleTarget [])
       = Inr [UpsertPairingRequest ''channel-talk'' ''unknown'' ''User'']"
    using t [THEN conjunct1] trans [OF t [THEN conjunct2, THEN conjunct1] e] by (rule conjI)
  then show ?thesis unfolding ev_def m_def .
qed

text \<open>
  Claim C2, as the code has it. The resolved chat id is the message's \<open>chatId\<close>, or the id
  of the referenced user chat when the message has none. When the resolved id is absent
  or empty the run returns with no effect: no failure is produced. Otherwise the run is
  the run of the same event with the resolved id written into the message, and every
  message sent goes to the resolved chat.
\<close>

theorem chatId_resolution:
  assumes "ev_entity event = Some message"
  shows "(\<forall>c. e_chatId message = Some c \<longrightarrow> chatId_of event message = Some c)
     \<and> (e_chatId message = None \<longrightarrow>
          chatId_of event message = (case refUserChat event of None \<Rightarrow> None | Some uc \<Rightarrow> uc_id uc))
     \<and> (\<not> truthy (chatId_of event message) \<longrightarrow>
          processWebhookEvent pluginApi now event target = Inr [])
     \<and> processWebhookEvent pluginApi now event target
         = processWebhookEvent pluginApi now
             (event\<lparr>ev_entity := Some (message\<lparr>e_chatId := chatId_of event message\<rparr>)\<rparr>) target
     \<and> (\<forall>effs. processWebhookEvent pluginApi now event target = Inr effs \<longrightarrow>
          (\<forall>sc \<in> set (sends effs). sc_chatId sc = the (chatId_of event message)))"
proof -
  have a: "\<forall>c. e_chatId message = Some c \<longrightarrow> chatId_of event message = Some c"
    by (simp add: chatId_of_def)
  have b: "e_chatId message = None \<longrightarrow>
          chatId_of event message = (case refUserChat event of None \<Rightarrow> None | Some uc \<Rightarrow> uc_id uc)"
    by (simp add: chatId_of_def)
  have c: "\<not> truthy (chatId_of event message) \<longrightarrow>
          processWebhookEvent pluginApi now event target = Inr []"
    using assms by (simp add: processWebhookEvent_def)
  have g: "gate api now target (message\<lparr>e_chatId := x\<rparr>) ci i bd s
         = gate api now target message ci i bd s" for api x ci i bd s
    by (rule gate_message_cong) simp_all
  have d: "processWebhookEvent pluginApi now event target
         = processWebhookEvent pluginApi now
             (event\<lparr>ev_entity := Some (message\<lparr>e_chatId := chatId_of event message\<rparr>)\<rparr>) target"
    using assms
    by (simp add: processWebhookEvent_def chatId_of_entity_update resolveSender_entity_update
        chatId_of_idem filters_chatId g split: option.splits)
  have e: "\<forall>effs. processWebhookEvent pluginApi now event target = Inr effs \<longrightarrow>
          (\<forall>sc \<in> set (sends effs). sc_chatId sc = the (chatId_of event message))"
    using assms
    by (auto simp: processWebhookEvent_def split: option.splits if_splits dest: sends_gate)
  from a b c d e show ?thesis by blast
qed

theorem chatId_resolution_witness:
  "chatId_of (sampleEvent (sampleMessage\<lparr>e_chatId := None\<rparr>) (Some sampleRefers))
      (sampleMessage\<lparr>e_chatId := None\<rparr>) = Some ''UC9''
   \<and> processWebhookEvent (Some (sampleApi None [] [] True)) 0
       (sampleEvent (sampleMessage\<lparr>e_chatId := None\<rparr>) (Some sampleRefers)) (sampleTarget [])
     = Inr [UpsertPairingRequest ''channel-talk'' ''U1'' ''Kim'',
            sendTo (sampleTarget []) ''UC9'' False ''Channel Talk user ID: U1 code: ABC123'']
   \<and> processWebhookEvent (Some (sampleApi None [] [] True)) 0
       (sampleEvent (sampleMessage\<lparr>e_chatId := None\<rparr>) None) (sampleTarget []) = Inr []"
proof -
  define m where "m = sampleMessage\<lparr>e_chatId := None\<rparr>"
  define ev where "ev = sampleEvent m (Some sampleRefers)"
  define ev0 where "ev0 = sampleEvent m None"
  have a: "ev_entity ev = Some m" and a0: "ev_entity ev0 = Some m"
    unfolding ev_def ev0_def by (simp_all add: sampleEvent_def)
  have n: "e_chatId m = None" unfolding m_def by simp
  have u: "(case refUserChat ev of None \<Rightarrow> None | Some uc \<Rightarrow> uc_id uc) = Some ''UC9''"
    unfolding ev_def m_def by code_simp
  have f: "\<not> truthy (chatId_of ev0 m)" unfolding ev0_def m_def by code_simp
  have e: "processWebhookEvent (Some (sampleApi None [] [] True)) 0
        (ev\<lparr>ev_entity := Some (m\<lparr>e_chatId := chatId_of ev m\<rparr>)\<rparr>) (sampleTarget [])
      = Inr [UpsertPairingRequest ''channel-talk'' ''U1'' ''Kim'',
            sendTo (sampleTarget []) ''UC9'' False ''Channel Talk user ID: U1 code: ABC123'']"
    unfolding ev_def m_def by code_simp
  note t = chatId_resolution [OF a, of "Some (sampleApi None [] [] True)" 0 "sampleTarget []"]
  note t0 = chatId_resolution [OF a0, of "Some (sampleApi None [] [] True)" 0 "sampleTarget []"]
  have c1: "chatId_of ev m = Some ''UC9''" using t n u by simp
  have c2: "processWebhookEvent (Some (sampleApi None [] [] True)) 0 ev (sampleTarget [])
     = Inr [UpsertPairingRequest ''channel-talk'' ''U1'' ''Kim'',
            sendTo (sampleTarget []) ''UC9'' False ''Channel Talk user ID: U1 code: ABC123'']"
    using t e by metis
  have c3: "processWebhookEvent (Some (sampleApi None [] [] True)) 0 ev0 (sampleTarget []) = Inr []"
    using t0 f by blast
  from c1 c2 c3 show ?thesis unfolding ev_def ev0_def m_def by blast
qed

text \<open>
  Claim C2 as stated fails: with no chat id in the message and none referenced, the run
  returns normally with no effect. The outcome is not a failure, and it is the outcome
  of a bot-authored event.
\<close>

theorem missing_chatId_counterexample:
  "chatId_of (sampleEvent (sampleMessage\<lparr>e_chatId := None\<rparr>) None)
      (sampleMessage\<lparr>e_chatId := None\<rparr>) = None
   \<and> processWebhookEvent (Some (sampleApi None [] [] True)) 0
       (sampleEvent (sampleMessage\<lparr>e_chatId := None\<rparr>) None) (sampleTarget []) = Inr []
   \<and> \<not> isl (processWebhookEvent (Some (sampleApi None [] [] True)) 0
       (sampleEvent (sampleMessage\<lparr>e_chatId := None\<rparr>) None) (sampleTarget []))
   \<and> processWebhookEvent (Some (sampleApi None [] [] True)) 0
       (sampleEvent (sampleMessage\<lparr>e_chatId := None\<rparr>) None) (sampleTarget [])
     = processWebhookEvent (Some (sampleApi None [] [] True)) 0
       (sampleEvent (sampleMessage\<lparr>e_personType := Some ''bot''\<rparr>) None) (sampleTarget [])"
  by code_simp




section \<open>The claims about the function endpoint\<close>



text \<open>
  Claim C6, as the code has it. For a request that passes the two checks, the event
  passed on carries the caller kind as its person type; the manager slot is populated
  iff the caller kind is \<open>manager\<close> and the user slot iff it is \<open>user\<close> (the default of an
  absent kind), and the event takes the manager branch of sender resolution iff the
  caller kind is \<open>manager\<close>.
\<close>

theorem caller_kind_slots:
  assumes "truthy (chatId_in request)" and "userInput_in request \<noteq> []"
  shows "\<exists>event message refs.
           forwardedEvent (processFunctionRequest t1 t2 request target) = Some event
           \<and> ev_entity event = Some message \<and> ev_refers event = Some refs
           \<and> e_personType message = Some (callerType_in request)
           \<and> (r_manager refs \<noteq> None \<longleftrightarrow> callerType_in request = ''manager'')
           \<and> (r_user refs \<noteq> None \<longleftrightarrow> callerType_in request = ''user'')
           \<and> (managerBranch event message \<longleftrightarrow> callerType_in request = ''manager'')"
  using assms
  by (simp add: processFunctionRequest_def forwardedEvent_def webhookEvent_of_def
      managerBranch_def refManager_def)

theorem caller_kind_slots_witness:
  "(\<exists>event refs.
       forwardedEvent (processFunctionRequest 17 18
         (sampleRequest None (Some ''G2'') None (Some ''hi'') (Some ''manager'')) sampleFunctionTarget)
         = Some event
       \<and> ev_refers event = Some refs \<and> r_manager refs \<noteq> None \<and> r_user refs = None)
   \<and> (\<exists>event refs.
       forwardedEvent (processFunctionRequest 17 18
         (sampleRequest None (Some ''G2'') None (Some ''hi'') None) sampleFunctionTarget)
         = Some event
       \<and> ev_refers event = Some refs \<and> r_manager refs = None \<and> r_user refs \<noteq> None)"
proof -
  define r where "r = sampleRequest None (Some ''G2'') None (Some ''hi'') (Some ''manager'')"
  define q where "q = sampleRequest None (Some ''G2'') None (Some ''hi'') None"
  have a: "truthy (chatId_in r)" "userInput_in r \<noteq> []" unfolding r_def by code_simp+
  have b: "truthy (chatId_in q)" "userInput_in q \<noteq> []" unfolding q_def by code_simp+
  have k: "callerType_in r = ''manager''" "callerType_in q = ''user''"
    unfolding r_def q_def by code_simp+
  have "\<exists>event refs.
       forwardedEvent (processFunctionRequest 17 18 r sampleFunctionTarget) = Some event
       \<and> ev_refers event = Some refs \<and> r_manager refs \<noteq> None \<and> r_user refs = None"
    using caller_kind_slots [OF a, of 17 18 sampleFunctionTarget] by (auto simp: k)
  moreover have "\<exists>event refs.
       forwardedEvent (processFunctionRequest 17 18 q sampleFunctionTarget) = Some event
       \<and> ev_refers event = Some refs \<and> r_manager refs = None \<and> r_user refs \<noteq> None"
    using caller_kind_slots [OF b, of 17 18 sampleFunctionTarget] by (auto simp: k)
  ultimately show ?thesis unfolding r_def q_def by (rule conjI)
qed

text \<open>
  Claim C6 as stated fails: the caller kind \<open>admin\<close> populates neither slot, and the caller
  kind \<open>bot\<close> yields a bot-authored event, not a customer's.
\<close>

theorem caller_kind_counterexample:
  "map_option ev_refers (forwardedEvent (processFunctionRequest 17 18
       (sampleRequest None (Some ''G2'') None (Some ''hi'') (Some ''admin'')) sampleFunctionTarget))
     = Some (Some \<lparr>r_userChat = None, r_user = None, r_manager = None\<rparr>)
   \<and> map_option ev_entity (forwardedEvent (processFunctionRequest 17 18
       (sampleRequest None (Some ''G2'') None (Some ''hi'') (Some ''bot'')) sampleFunctionTarget))
     = Some (Some \<lparr>e_id = Some ''function-17'', e_chatId = Some ''G2'',
          e_chatType = Some ''userChat'', e_personType = Some ''bot'', e_personId = Some ''P1'',
          e_plainText = Some ''hi'', e_blocks = None, e_createdAt = Some 18, e_updatedAt = None\<rparr>)"
  by code_simp

section \<open>The claim about the HTTP handlers\<close>

lemma readJsonBody_failed:
  "readJsonBody parse req maxBytes = ReadFailed err \<longleftrightarrow>
     (if exceeds maxBytes 0 (req_chunks req) then err = ''payload_too_large''
      else if req_streamError req then err = ''read_error''
      else parse (concat (req_chunks req)) = None \<and> err = ''invalid_json'')"
  by (auto simp: readJsonBody_def split: option.splits)






end
